theory Spec2Isabelle
  imports Main "HOL-Library.Word"
begin

section \<open>Data model of package notify\<close>

text \<open>
  Go's \<open>int64\<close> is a 64-bit word; addition wraps and comparisons are signed
  (\<open>word_sless\<close>, \<open>word_sle\<close>). Go strings are byte strings.
\<close>

type_synonym int64 = "64 word"

text \<open>\<open>type MessageReceiver struct\<close>\<close>

record MessageReceiver =
  ToUser :: string
  ToParty :: string
  ToTag :: string

text \<open>\<open>type MessageOptions struct\<close>; \<open>DuplicateCheckInterval\<close> is a Go \<open>int\<close>, only
  ever compared with 0 and copied.\<close>

record MessageOptions =
  Safe :: bool
  EnableIDTrans :: bool
  EnableDuplicateCheck :: bool
  DuplicateCheckInterval :: int

text \<open>\<open>type MessageResult struct\<close>\<close>

record MessageResult =
  ErrorCode :: int64
  ErrorMsg :: string
  InvalidUser :: string
  InvalidParty :: string
  InvalidTag :: string

text \<open>\<open>type GetTokenResult struct\<close>; the selectors carry a prefix because \<open>Token\<close> is
  also a field of \<open>Notify\<close>.\<close>

datatype GetTokenResult =
  GetTokenResult (tokErrorCode: int) (tokErrorMsg: string) (tokToken: string) (tokExpiresIn: int64)

text \<open>The message structs, fields in source order.\<close>

datatype NewsArticle = NewsArticle string string string string
datatype MpNewsArticle = MpNewsArticle string string string string string string
datatype MiniProgramContentItem = MiniProgramContentItem string string
datatype TaskCardButton = TaskCardButton string string string string bool

datatype message =
    Text string
  | Image string
  | Voice string
  | Video string string string
  | File string
  | TextCard string string string string
  | News "NewsArticle list"
  | MpNews "MpNewsArticle list"
  | Markdown string
  | MiniProgram string string string string bool "MiniProgramContentItem list"
  | TaskCard string string string string "TaskCardButton list"

text \<open>
  The \<open>message interface{}\<close> argument of \<open>Send\<close>. The assertion \<open>message.(MessageKey)\<close>
  goes by the method set of the dynamic type, and \<open>key()\<close> is declared with a value
  receiver, so besides the eleven struct types it is in the method set of a pointer to
  one of them and of any struct type that embeds one of them. The values are
  \<^item> \<open>NilValue\<close>: the nil interface;
  \<^item> \<open>Msg m\<close>: a value of one of the eleven struct types;
  \<^item> \<open>MsgPtr m\<close>: a pointer, not nil, to such a value;
  \<^item> \<open>Embeds t m\<close>: a value of another struct type \<open>t\<close> that embeds the message \<open>m\<close>,
    so that \<open>key()\<close> is promoted;
  \<^item> \<open>NilMsgPtr t\<close>: a value of a type \<open>t\<close> that has \<open>key()\<close> in its method set but
    reaches the message through a nil pointer (a nil pointer to a message struct, or a
    struct whose embedded pointer is nil): calling \<open>key()\<close> dereferences nil;
  \<^item> \<open>Other t\<close>: a value of a type \<open>t\<close> without the method \<open>key()\<close>.
\<close>

datatype any =
    NilValue
  | Msg message
  | MsgPtr message
  | Embeds string message
  | NilMsgPtr string
  | Other string

text \<open>The method \<open>key()\<close> of each message type.\<close>

fun key :: "message \<Rightarrow> string" where
  "key (Text _) = ''text''"
| "key (Image _) = ''image''"
| "key (Voice _) = ''voice''"
| "key (Video _ _ _) = ''video''"
| "key (File _) = ''file''"
| "key (TextCard _ _ _ _) = ''textcard''"
| "key (News _) = ''news''"
| "key (MpNews _) = ''mpnews''"
| "key (Markdown _) = ''markdown''"
| "key (MiniProgram _ _ _ _ _ _) = ''miniprogram_notice''"
| "key (TaskCard _ _ _ _ _) = ''taskcard''"

text \<open>Whether \<open>message.(MessageKey)\<close> succeeds.\<close>

fun implements_MessageKey :: "any \<Rightarrow> bool" where
  "implements_MessageKey NilValue = False"
| "implements_MessageKey (Msg m) = True"
| "implements_MessageKey (MsgPtr m) = True"
| "implements_MessageKey (Embeds t m) = True"
| "implements_MessageKey (NilMsgPtr t) = True"
| "implements_MessageKey (Other t) = False"

text \<open>What \<open>k.key()\<close> gives on a value that passed the assertion; \<open>None\<close> is the
  nil-pointer panic.\<close>

fun call_key :: "any \<Rightarrow> string option" where
  "call_key (Msg m) = Some (key m)"
| "call_key (MsgPtr m) = Some (key m)"
| "call_key (Embeds t m) = Some (key m)"
| "call_key (NilMsgPtr t) = None"
| "call_key NilValue = None"
| "call_key (Other t) = None"

text \<open>\<open>msgBody map[string]interface{}\<close>: the values stored are strings, integers and the
  \<open>message\<close> argument itself.\<close>

datatype jvalue = JString string | JInt int | JValue any

type_synonym msgBody = "string \<rightharpoonup> jvalue"

text \<open>\<open>type Notify struct\<close>\<close>

record Notify =
  corpID :: string
  agentID :: int64
  appSecret :: string
  TokenPersist :: bool
  Token :: string
  TokenExpiresAt :: int64
  CacheFilePath :: string

text \<open>Every error value the package builds, one constructor per \<open>errors.New\<close> or
  \<open>fmt.Errorf\<close>; a wrapped cause (\<open>%w\<close>) or an inserted message (\<open>%s\<close>) is the argument.
  \<open>NilPointerPanic\<close> is not a returned error: it stands for the run-time panic that ends
  \<open>Send\<close> when \<open>key()\<close> is called through a nil pointer.\<close>

datatype error =
    MessageNil
  | NilPointerPanic
  | ReceiverNotSet
  | UnrecognizedMessageType
  | TokenGetRequestError string
  | TokenResultDecodeError string
  | TokenGetError string
  | TokenPersistNotEnabled
  | ReadCacheFileError
  | UnmarshalCacheError
  | TokenExpired
  | MarshalNotifyFailed
  | CreateCacheDirFailed
  | CreateTempFileFailed
  | WriteTempFileFailed
  | SyncTempFileFailed
  | CloseTempFileFailed
  | RenameTempFileFailed
  | EncodeMessageError
  | SendMessageRequestError string
  | SendMessageResultDecodeError string

section \<open>The environment\<close>

text \<open>
  What an HTTP round trip followed by \<open>json.NewDecoder(res.Body).Decode(&v)\<close> can give:
  the request fails, the body does not decode (the struct is left as far as the decoder
  got), or it decodes.
\<close>

datatype 'a http_reply = RequestFailed string | DecodeFailed string 'a | Decoded 'a

text \<open>
  The outcomes of the system calls of one \<open>saveTokenCache\<close>. \<open>write_fault = Some k\<close>:
  \<open>f.Write\<close> reports an error after \<open>k\<close> bytes reached the file.
\<close>

record save_faults =
  mkdir_ok :: bool
  create_ok :: bool
  write_fault :: "nat option"
  sync_ok :: bool
  close_ok :: bool
  rename_ok :: bool
  remove_ok :: bool

text \<open>
  Everything outside the package is an oracle: the clock (indexed by the number of
  readings taken so far), the two remote endpoints (indexed by the number of requests
  made so far, and given the request's parameters), the JSON codec of the standard
  library, \<open>filepath.Dir\<close>, and the faults of the file system (indexed by the number of
  saves so far).
\<close>

record env =
  time_Now_Unix :: "nat \<Rightarrow> int64"
  http_Get_gettoken :: "nat \<Rightarrow> string \<Rightarrow> string \<Rightarrow> GetTokenResult http_reply"
  http_Post_send :: "nat \<Rightarrow> string \<Rightarrow> string \<Rightarrow> MessageResult http_reply"
  json_Encode :: "msgBody \<Rightarrow> string option"
  json_Marshal :: "Notify \<Rightarrow> string option"
  json_Unmarshal :: "string \<Rightarrow> Notify option"
  filepath_Dir :: "string \<Rightarrow> string"
  save_faults_of :: "nat \<Rightarrow> save_faults"

text \<open>
  The state outside the client: how often the clock was read, how many requests went to
  each endpoint, how many saves were started, and the disk (file contents by path, and
  the directories made).
\<close>

record world =
  clock_reads :: nat
  token_requests :: nat
  send_requests :: nat
  saves :: nat
  files :: "string \<rightharpoonup> string"
  dirs :: "string set"

definition tick :: "world \<Rightarrow> world" where
  "tick w = w\<lparr>clock_reads := Suc (clock_reads w)\<rparr>"

definition count_token_request :: "world \<Rightarrow> world" where
  "count_token_request w = w\<lparr>token_requests := Suc (token_requests w)\<rparr>"

definition count_send_request :: "world \<Rightarrow> world" where
  "count_send_request w = w\<lparr>send_requests := Suc (send_requests w)\<rparr>"

section \<open>The token cache on disk\<close>

text \<open>The system calls that change the disk.\<close>

datatype fs_op =
    MkdirAll string
  | Create string
  | Write string string
  | Sync string
  | Close string
  | Remove string
  | Rename string string

fun apply_fs_op :: "fs_op \<Rightarrow> world \<Rightarrow> world" where
  "apply_fs_op (MkdirAll d) w = w\<lparr>dirs := insert d (dirs w)\<rparr>"
| "apply_fs_op (Create p) w = w\<lparr>files := (files w)(p \<mapsto> [])\<rparr>"
| "apply_fs_op (Write p bs) w =
     w\<lparr>files := (files w)(p \<mapsto> (case files w p of None \<Rightarrow> [] | Some old \<Rightarrow> old) @ bs)\<rparr>"
| "apply_fs_op (Sync p) w = w"
| "apply_fs_op (Close p) w = w"
| "apply_fs_op (Remove p) w = w\<lparr>files := (files w)(p := None)\<rparr>"
| "apply_fs_op (Rename src dst) w =
     (case files w src of
        None \<Rightarrow> w
      | Some c \<Rightarrow> w\<lparr>files := (files w)(src := None, dst \<mapsto> c)\<rparr>)"

fun run_ops :: "fs_op list \<Rightarrow> world \<Rightarrow> world" where
  "run_ops [] w = w"
| "run_ops (x # xs) w = run_ops xs (apply_fs_op x w)"

text \<open>
  \<open>saveTokenCache\<close>, as the error it returns and the system calls that took effect, in
  order. A call that fails has no effect, except a failed write, which may leave a prefix
  of the data, and is followed by the clean-up the source does on that path.
\<close>

definition save_script :: "env \<Rightarrow> save_faults \<Rightarrow> Notify \<Rightarrow> error option \<times> fs_op list" where
  "save_script e flt n =
    (if \<not> TokenPersist n then (Some TokenPersistNotEnabled, [])
     else case json_Marshal e n of
       None \<Rightarrow> (Some MarshalNotifyFailed, [])
     | Some b \<Rightarrow>
        let cacheDir = filepath_Dir e (CacheFilePath n) in
        if cacheDir \<noteq> ''.'' \<and> \<not> mkdir_ok flt then (Some CreateCacheDirFailed, [])
        else
          let made = (if cacheDir \<noteq> ''.'' then [MkdirAll cacheDir] else []);
              tempFile = CacheFilePath n @ ''.tmp'';
              removed = (if remove_ok flt then [Remove tempFile] else [])
          in
          if \<not> create_ok flt then (Some CreateTempFileFailed, made)
          else (case write_fault flt of
            Some k \<Rightarrow>
              (Some WriteTempFileFailed,
               made @ [Create tempFile, Write tempFile (take k b), Close tempFile] @ removed)
          | None \<Rightarrow>
              if \<not> sync_ok flt then
                (Some SyncTempFileFailed,
                 made @ [Create tempFile, Write tempFile b, Close tempFile] @ removed)
              else if \<not> close_ok flt then
                (Some CloseTempFileFailed,
                 made @ [Create tempFile, Write tempFile b, Sync tempFile] @ removed)
              else if \<not> rename_ok flt then
                (Some RenameTempFileFailed,
                 made @ [Create tempFile, Write tempFile b, Sync tempFile, Close tempFile])
              else
                (None,
                 made @ [Create tempFile, Write tempFile b, Sync tempFile, Close tempFile]
                      @ [Rename tempFile (CacheFilePath n)])))"

text \<open>A save that runs to its end.\<close>

definition saveTokenCache :: "env \<Rightarrow> Notify \<Rightarrow> world \<Rightarrow> error option \<times> world" where
  "saveTokenCache e n w =
    (let (err, ops) = save_script e (save_faults_of e (saves w)) n
     in (err, run_ops ops (w\<lparr>saves := Suc (saves w)\<rparr>)))"

text \<open>A save that is cut off after \<open>k\<close> of its system calls.\<close>

definition saveTokenCache_interrupted :: "nat \<Rightarrow> env \<Rightarrow> Notify \<Rightarrow> world \<Rightarrow> world" where
  "saveTokenCache_interrupted k e n w =
    run_ops (take k (snd (save_script e (save_faults_of e (saves w)) n)))
      (w\<lparr>saves := Suc (saves w)\<rparr>)"

text \<open>\<open>loadTokenCache\<close>. A file that \<open>os.ReadFile\<close> cannot read is an absent one.\<close>

definition loadTokenCache :: "env \<Rightarrow> Notify \<Rightarrow> world \<Rightarrow> error option \<times> Notify \<times> world" where
  "loadTokenCache e n w =
    (if \<not> TokenPersist n then (Some TokenPersistNotEnabled, n, w)
     else case files w (CacheFilePath n) of
       None \<Rightarrow> (Some ReadCacheFileError, n, w)
     | Some b \<Rightarrow>
        (case json_Unmarshal e b of
           None \<Rightarrow> (Some UnmarshalCacheError, n, w)
         | Some cache \<Rightarrow>
            if TokenExpiresAt cache <s time_Now_Unix e (clock_reads w)
            then (Some TokenExpired, n, tick w)
            else (None,
                  n\<lparr>Token := Token cache, TokenExpiresAt := TokenExpiresAt cache\<rparr>,
                  tick w)))"

text \<open>\<open>New\<close>, \<open>EnableTokenPersist\<close>, \<open>SetCacheFilePath\<close>.\<close>

definition New :: "env \<Rightarrow> string \<Rightarrow> int64 \<Rightarrow> string \<Rightarrow> world \<Rightarrow> Notify \<times> world" where
  "New e corp agent secret w =
    snd (loadTokenCache e
      \<lparr>corpID = corp, agentID = agent, appSecret = secret, TokenPersist = False,
       Token = [], TokenExpiresAt = 0, CacheFilePath = ''.notify''\<rparr> w)"

definition EnableTokenPersist :: "Notify \<Rightarrow> Notify" where
  "EnableTokenPersist n = n\<lparr>TokenPersist := True\<rparr>"

definition SetCacheFilePath :: "string \<Rightarrow> Notify \<Rightarrow> Notify" where
  "SetCacheFilePath path n = n\<lparr>CacheFilePath := path\<rparr>"

section \<open>The token manager\<close>

text \<open>The guard of \<open>GetToken\<close>'s first \<open>if\<close>.\<close>

definition token_valid :: "env \<Rightarrow> Notify \<Rightarrow> world \<Rightarrow> bool" where
  "token_valid e n w \<longleftrightarrow>
    Token n \<noteq> [] \<and> time_Now_Unix e (clock_reads w) <s TokenExpiresAt n"

text \<open>The two assignments to the client's fields on a successful exchange.\<close>

definition store_token :: "env \<Rightarrow> Notify \<Rightarrow> world \<Rightarrow> GetTokenResult \<Rightarrow> Notify" where
  "store_token e n w tokenRes =
    n\<lparr>Token := tokToken tokenRes,
      TokenExpiresAt := time_Now_Unix e (clock_reads w) + tokExpiresIn tokenRes\<rparr>"

text \<open>The rest of \<open>GetToken\<close>: the credential exchange.\<close>

definition refreshToken ::
  "env \<Rightarrow> Notify \<Rightarrow> world \<Rightarrow> (error + string \<times> int64) \<times> Notify \<times> world" where
  "refreshToken e n w =
    (let w1 = count_token_request w in
     case http_Get_gettoken e (token_requests w) (corpID n) (appSecret n) of
       RequestFailed x \<Rightarrow> (Inl (TokenGetRequestError x), n, w1)
     | DecodeFailed x _ \<Rightarrow> (Inl (TokenResultDecodeError x), n, w1)
     | Decoded tokenRes \<Rightarrow>
        if tokErrorCode tokenRes \<noteq> 0
        then (Inl (TokenGetError (tokErrorMsg tokenRes)), n, w1)
        else
          let n1 = store_token e n w1 tokenRes;
              w2 = snd (saveTokenCache e n1 (tick w1))
          in (Inr (tokToken tokenRes, TokenExpiresAt n1), n1, w2))"

text \<open>
  The world once the guard has come out false: \<open>&&\<close> reads the clock only when the
  token is not empty.
\<close>

definition after_guard :: "Notify \<Rightarrow> world \<Rightarrow> world" where
  "after_guard n w = (if Token n = [] then w else tick w)"

text \<open>\<open>GetToken\<close>.\<close>

definition GetToken ::
  "env \<Rightarrow> Notify \<Rightarrow> world \<Rightarrow> (error + string \<times> int64) \<times> Notify \<times> world" where
  "GetToken e n w =
    (if token_valid e n w then (Inr (Token n, TokenExpiresAt n), n, tick w)
     else refreshToken e n (after_guard n w))"

section \<open>The message dispatcher\<close>

definition result0 :: MessageResult where
  "result0 = \<lparr>ErrorCode = 0, ErrorMsg = [], InvalidUser = [], InvalidParty = [],
              InvalidTag = []\<rparr>"

text \<open>\<open>setOptions\<close>; a nil \<open>options\<close> is \<open>None\<close>.\<close>

definition setOptions :: "msgBody \<Rightarrow> MessageOptions option \<Rightarrow> msgBody" where
  "setOptions msgBody options =
    (case options of
       None \<Rightarrow> msgBody
     | Some opts \<Rightarrow>
        let b1 = (if Safe opts then msgBody(''safe'' \<mapsto> JInt 1) else msgBody);
            b2 = (if EnableIDTrans opts then b1(''enable_id_trans'' \<mapsto> JInt 1) else b1)
        in
        if EnableDuplicateCheck opts then
          let b3 = b2(''enable_duplicate_check'' \<mapsto> JInt 1) in
          if DuplicateCheckInterval opts \<noteq> 0
          then b3(''duplicate_check_interval'' \<mapsto> JInt (DuplicateCheckInterval opts))
          else b3
        else b2)"

text \<open>\<open>sendMessage\<close>: the pair \<open>(result, err)\<close> and the world.\<close>

definition sendMessage ::
  "env \<Rightarrow> msgBody \<Rightarrow> Notify \<Rightarrow> world \<Rightarrow> (MessageResult \<times> error option) \<times> world" where
  "sendMessage e msgBody n w =
    (case json_Encode e msgBody of
       None \<Rightarrow> ((result0, Some EncodeMessageError), w)
     | Some body \<Rightarrow>
        let w1 = count_send_request w in
        (case http_Post_send e (send_requests w) (Token n) body of
           RequestFailed x \<Rightarrow> ((result0, Some (SendMessageRequestError x)), w1)
         | DecodeFailed x r \<Rightarrow> ((r, Some (SendMessageResultDecodeError x)), w1)
         | Decoded r \<Rightarrow> ((r, None), w1)))"

text \<open>
  \<open>sendInternal\<close>. Inside the retry branch the source declares a new \<open>err\<close>
  (\<open>token, _, err := n.GetToken()\<close>), which receives the error of the second
  \<open>GetToken\<close> and of the second \<open>sendMessage\<close>; the function returns the outer \<open>err\<close>,
  which is nil whenever the branch is entered.
\<close>

definition sendInternal ::
  "env \<Rightarrow> msgBody \<Rightarrow> Notify \<Rightarrow> world \<Rightarrow> (MessageResult \<times> error option) \<times> Notify \<times> world" where
  "sendInternal e msgBody n w =
    (case GetToken e n w of
       (Inl err, n1, w1) \<Rightarrow> ((result0, Some err), n1, w1)
     | (Inr _, n1, w1) \<Rightarrow>
        (case sendMessage e msgBody n1 w1 of
           ((result, err), w2) \<Rightarrow>
             if err = None \<and> (ErrorCode result = 42001 \<or> ErrorCode result = 40014) then
               (case GetToken e n1 w2 of
                  (Inl err', n2, w3) \<Rightarrow> ((result, err), n2, w3)
                | (Inr _, n2, w3) \<Rightarrow>
                    (case sendMessage e msgBody n2 w3 of
                       ((result', err'), w4) \<Rightarrow> ((result', err), n2, w4)))
             else ((result, err), n1, w2)))"

text \<open>The part of \<open>Send\<close> before \<open>sendInternal\<close>: the checks and the envelope.\<close>

definition buildMsgBody ::
  "Notify \<Rightarrow> MessageReceiver \<Rightarrow> any \<Rightarrow> MessageOptions option \<Rightarrow> error + msgBody" where
  "buildMsgBody n receiver message options =
    (if message = NilValue then Inl MessageNil
     else if length (ToUser receiver) = 0 \<and> length (ToParty receiver) = 0
             \<and> length (ToTag receiver) = 0
     then Inl ReceiverNotSet
     else
       let msgBody = setOptions
             (Map.empty(''touser'' \<mapsto> JString (ToUser receiver),
                        ''toparty'' \<mapsto> JString (ToParty receiver),
                        ''totag'' \<mapsto> JString (ToTag receiver),
                        ''agentid'' \<mapsto> JInt (sint (agentID n)))) options
       in if \<not> implements_MessageKey message then Inl UnrecognizedMessageType
          else (case call_key message of
                  None \<Rightarrow> Inl NilPointerPanic
                | Some k \<Rightarrow> Inr (msgBody(''msgtype'' \<mapsto> JString k, k \<mapsto> JValue message))))"

definition Send ::
  "env \<Rightarrow> MessageReceiver \<Rightarrow> any \<Rightarrow> MessageOptions option \<Rightarrow> Notify \<Rightarrow> world
    \<Rightarrow> (MessageResult \<times> error option) \<times> Notify \<times> world" where
  "Send e receiver message options n w =
    (case buildMsgBody n receiver message options of
       Inl err \<Rightarrow> ((result0, Some err), n, w)
     | Inr msgBody \<Rightarrow> sendInternal e msgBody n w)"

section \<open>Auxiliary notions and concrete scenarios\<close>

text \<open>Whether a system call reads or writes the file at a path.\<close>

fun touches :: "fs_op \<Rightarrow> string \<Rightarrow> bool" where
  "touches (MkdirAll d) p = False"
| "touches (Create q) p = (q = p)"
| "touches (Write q bs) p = (q = p)"
| "touches (Sync q) p = False"
| "touches (Close q) p = False"
| "touches (Remove q) p = (q = p)"
| "touches (Rename src dst) p = (src = p \<or> dst = p)"

text \<open>The part of the world that is not the disk.\<close>

definition net_state :: "world \<Rightarrow> nat \<times> nat \<times> nat" where
  "net_state w = (clock_reads w, token_requests w, send_requests w)"

text \<open>A file system on which every call succeeds.\<close>

definition no_faults :: save_faults where
  "no_faults = \<lparr>mkdir_ok = True, create_ok = True, write_fault = None, sync_ok = True,
                close_ok = True, rename_ok = True, remove_ok = True\<rparr>"

text \<open>
  A client that holds the token \<open>fresh\<close>, valid until second 7700, with persistence on,
  and the text its exported fields are written as. The demo codec knows this one text.
\<close>

definition demo_client :: Notify where
  "demo_client = \<lparr>corpID = ''corp'', agentID = 1000002, appSecret = ''secret'',
                  TokenPersist = True, Token = ''fresh'', TokenExpiresAt = 7700,
                  CacheFilePath = ''cache/.notify''\<rparr>"

definition demo_json :: string where
  "demo_json = ''TokenPersist:true,Token:fresh,TokenExpiresAt:7700,CacheFilePath:cache/.notify''"

text \<open>The same client with the cache path \<open>New\<close> sets, and its text.\<close>

definition default_client :: Notify where
  "default_client = demo_client\<lparr>CacheFilePath := ''.notify''\<rparr>"

definition default_json :: string where
  "default_json = ''TokenPersist:true,Token:fresh,TokenExpiresAt:7700,CacheFilePath:.notify''"

definition demo_Marshal :: "Notify \<Rightarrow> string option" where
  "demo_Marshal n =
    (if TokenPersist n \<and> Token n = ''fresh'' \<and> TokenExpiresAt n = 7700
        \<and> CacheFilePath n = ''cache/.notify''
     then Some demo_json
     else if TokenPersist n \<and> Token n = ''fresh'' \<and> TokenExpiresAt n = 7700
        \<and> CacheFilePath n = ''.notify''
     then Some default_json
     else None)"

definition demo_Unmarshal :: "string \<Rightarrow> Notify option" where
  "demo_Unmarshal b =
    (if b = demo_json
     then Some \<lparr>corpID = [], agentID = 0, appSecret = [], TokenPersist = True,
                Token = ''fresh'', TokenExpiresAt = 7700, CacheFilePath = ''cache/.notify''\<rparr>
     else if b = default_json
     then Some \<lparr>corpID = [], agentID = 0, appSecret = [], TokenPersist = True,
                Token = ''fresh'', TokenExpiresAt = 7700, CacheFilePath = ''.notify''\<rparr>
     else None)"

definition demo_Dir :: "string \<Rightarrow> string" where
  "demo_Dir p = (if p = ''cache/.notify'' then ''cache'' else ''.'')"

text \<open>The remote service of the scenarios accepts the token \<open>fresh\<close> and answers 42001
  to any other.\<close>

definition expired_result :: MessageResult where
  "expired_result = result0\<lparr>ErrorCode := 42001, ErrorMsg := ''access_token expired''\<rparr>"

definition demo_send :: "nat \<Rightarrow> string \<Rightarrow> string \<Rightarrow> MessageResult http_reply" where
  "demo_send k tok body = (if tok = ''fresh'' then Decoded result0 else Decoded expired_result)"

text \<open>A remote service that answers 42001 to the first request made with any other token
  and is unreachable afterwards.\<close>

definition flaky_send :: "nat \<Rightarrow> string \<Rightarrow> string \<Rightarrow> MessageResult http_reply" where
  "flaky_send k tok body =
    (if tok = ''fresh'' then Decoded result0
     else if k = 0 then Decoded expired_result
     else RequestFailed ''connection reset'')"

text \<open>
  An environment with the clock \<open>clock\<close>, in which the credential exchange always gives
  \<open>reply\<close> and every save meets the faults \<open>flt\<close>.
\<close>

definition demo_env ::
  "(nat \<Rightarrow> int64) \<Rightarrow> GetTokenResult http_reply \<Rightarrow> save_faults \<Rightarrow> env" where
  "demo_env clock reply flt =
    \<lparr>time_Now_Unix = clock,
     http_Get_gettoken = (\<lambda>_ _ _. reply),
     http_Post_send = demo_send,
     json_Encode = (\<lambda>_. Some ''{}''),
     json_Marshal = demo_Marshal,
     json_Unmarshal = demo_Unmarshal,
     filepath_Dir = demo_Dir,
     save_faults_of = (\<lambda>_. flt)\<rparr>"

definition fresh_reply :: "GetTokenResult http_reply" where
  "fresh_reply = Decoded (GetTokenResult 0 ''ok'' ''fresh'' 7200)"

definition flaky_env :: env where
  "flaky_env = (demo_env (\<lambda>_. 500) fresh_reply no_faults)\<lparr>http_Post_send := flaky_send\<rparr>"

definition world0 :: world where
  "world0 = \<lparr>clock_reads = 0, token_requests = 0, send_requests = 0, saves = 0,
             files = Map.empty, dirs = {}\<rparr>"

text \<open>A disk that already holds a cache file.\<close>

definition world_cached :: world where
  "world_cached = world0\<lparr>files := [''cache/.notify'' \<mapsto> ''old'']\<rparr>"

text \<open>A client whose token \<open>stale\<close> is, by its own clock, good until second 1000.\<close>

definition stale_client :: Notify where
  "stale_client = \<lparr>corpID = ''corp'', agentID = 1000002, appSecret = ''secret'',
                   TokenPersist = False, Token = ''stale'', TokenExpiresAt = 1000,
                   CacheFilePath = ''.notify''\<rparr>"

definition someone :: MessageReceiver where
  "someone = \<lparr>ToUser = ''alice'', ToParty = [], ToTag = []\<rparr>"

definition nobody :: MessageReceiver where
  "nobody = \<lparr>ToUser = [], ToParty = [], ToTag = []\<rparr>"

text \<open>Options with the duplicate check off and an interval set all the same.\<close>

definition quiet_options :: MessageOptions where
  "quiet_options = \<lparr>Safe = False, EnableIDTrans = False, EnableDuplicateCheck = False,
                     DuplicateCheckInterval = 900\<rparr>"

definition hello_body :: msgBody where
  "hello_body = [''touser'' \<mapsto> JString ''alice'', ''toparty'' \<mapsto> JString [],
                 ''totag'' \<mapsto> JString [], ''agentid'' \<mapsto> JInt 1000002,
                 ''msgtype'' \<mapsto> JString ''text'', ''text'' \<mapsto> JValue (Msg (Text ''hello''))]"

text \<open>The demo client before it has any token, and a disk that holds a saved cache at the
  path \<open>New\<close> sets.\<close>

definition blank_client :: Notify where
  "blank_client = demo_client\<lparr>Token := [], TokenExpiresAt := 0\<rparr>"


section \<open>The token manager: properties\<close>

text \<open>
  C4. When the in-memory token is not empty and the clock reads strictly less than the
  stored expiry, \<open>GetToken\<close> returns that token and expiry. The client is unchanged, no
  request is made to either endpoint, and the disk is untouched.
\<close>

theorem GetToken_cached:
  assumes "Token n \<noteq> []"
    and "time_Now_Unix e (clock_reads w) <s TokenExpiresAt n"
  shows "fst (GetToken e n w) = Inr (Token n, TokenExpiresAt n)
    \<and> fst (snd (GetToken e n w)) = n
    \<and> token_requests (snd (snd (GetToken e n w))) = token_requests w
    \<and> send_requests (snd (snd (GetToken e n w))) = send_requests w
    \<and> saves (snd (snd (GetToken e n w))) = saves w
    \<and> files (snd (snd (GetToken e n w))) = files w
    \<and> dirs (snd (snd (GetToken e n w))) = dirs w"
  using assms by (simp add: GetToken_def token_valid_def tick_def)

theorem GetToken_cached_witness:
  "fst (GetToken (demo_env (\<lambda>_. 500) fresh_reply no_faults) stale_client world0)
     = Inr (''stale'', 1000)
   \<and> token_requests
       (snd (snd (GetToken (demo_env (\<lambda>_. 500) fresh_reply no_faults) stale_client world0))) = 0"
  using GetToken_cached [of stale_client "demo_env (\<lambda>_. 500) fresh_reply no_faults" world0]
  by (simp add: stale_client_def demo_env_def world0_def)

text \<open>
  C10. A failing \<open>GetToken\<close> (request error, decode error, or a remote error code other
  than 0) leaves the client as it was, token and expiry included.
\<close>

theorem GetToken_failure_keeps_token:
  assumes "fst (GetToken e n w) = Inl err"
  shows "fst (snd (GetToken e n w)) = n"
  using assms
  by (auto simp: GetToken_def refreshToken_def Let_def split: if_splits http_reply.splits)

theorem GetToken_failure_keeps_token_witness:
  "fst (GetToken (demo_env (\<lambda>_. 1000) (RequestFailed ''timeout'') no_faults) stale_client world0)
     = Inl (TokenGetRequestError ''timeout'')
   \<and> fst (snd (GetToken (demo_env (\<lambda>_. 1000) (RequestFailed ''timeout'') no_faults)
                  stale_client world0))
     = stale_client"
proof -
  have f: "fst (GetToken (demo_env (\<lambda>_. 1000) (RequestFailed ''timeout'') no_faults)
                  stale_client world0)
     = Inl (TokenGetRequestError ''timeout'')"
    by (simp add: GetToken_def refreshToken_def token_valid_def after_guard_def tick_def
        demo_env_def stale_client_def world0_def)
  from GetToken_failure_keeps_token [OF f] f show ?thesis by simp
qed

text \<open>
  C5. When \<open>GetToken\<close> has to refresh: a failed request and an undecodable reply each
  come back as an error; a decoded reply with a non-zero error code comes back as an error
  carrying the remote message; a decoded reply with code 0 makes \<open>GetToken\<close> store the
  token and the expiry \<open>now + expires_in\<close> (64-bit addition, \<open>now\<close> read after the reply)
  and return them.
\<close>

theorem GetToken_refresh:
  assumes "\<not> token_valid e n w"
  shows
   "(\<forall>x. http_Get_gettoken e (token_requests w) (corpID n) (appSecret n) = RequestFailed x
        \<longrightarrow> fst (GetToken e n w) = Inl (TokenGetRequestError x))
  \<and> (\<forall>x r. http_Get_gettoken e (token_requests w) (corpID n) (appSecret n) = DecodeFailed x r
        \<longrightarrow> fst (GetToken e n w) = Inl (TokenResultDecodeError x))
  \<and> (\<forall>r. http_Get_gettoken e (token_requests w) (corpID n) (appSecret n) = Decoded r
          \<and> tokErrorCode r \<noteq> 0
        \<longrightarrow> fst (GetToken e n w) = Inl (TokenGetError (tokErrorMsg r)))
  \<and> (\<forall>r. http_Get_gettoken e (token_requests w) (corpID n) (appSecret n) = Decoded r
          \<and> tokErrorCode r = 0
        \<longrightarrow> fst (GetToken e n w)
              = Inr (tokToken r,
                     time_Now_Unix e (clock_reads (after_guard n w)) + tokExpiresIn r)
          \<and> Token (fst (snd (GetToken e n w))) = tokToken r
          \<and> TokenExpiresAt (fst (snd (GetToken e n w)))
              = time_Now_Unix e (clock_reads (after_guard n w)) + tokExpiresIn r)"
proof -
  have tr: "token_requests (after_guard n w) = token_requests w"
    by (simp add: after_guard_def tick_def)
  show ?thesis
    using assms
    by (simp add: GetToken_def refreshToken_def Let_def tr store_token_def
        count_token_request_def)
qed

theorem GetToken_refresh_witness:
  "fst (GetToken (demo_env (\<lambda>_. 1000) (RequestFailed ''timeout'') no_faults) stale_client world0)
     = Inl (TokenGetRequestError ''timeout'')
   \<and> fst (GetToken (demo_env (\<lambda>_. 1000) (DecodeFailed ''unexpected EOF'' (GetTokenResult 0 [] [] 0))
                no_faults) stale_client world0)
     = Inl (TokenResultDecodeError ''unexpected EOF'')
   \<and> fst (GetToken (demo_env (\<lambda>_. 1000) (Decoded (GetTokenResult 40013 ''invalid corpid'' [] 0))
                no_faults) stale_client world0)
     = Inl (TokenGetError ''invalid corpid'')
   \<and> fst (GetToken (demo_env (\<lambda>_. 1000) fresh_reply no_faults) stale_client world0)
     = Inr (''fresh'', 8200)
   \<and> Token (fst (snd (GetToken (demo_env (\<lambda>_. 1000) fresh_reply no_faults) stale_client world0)))
     = ''fresh''
   \<and> TokenExpiresAt
       (fst (snd (GetToken (demo_env (\<lambda>_. 1000) fresh_reply no_faults) stale_client world0)))
     = 8200"
proof -
  have nv: "\<not> token_valid (demo_env (\<lambda>_. 1000) r no_faults) stale_client world0" for r
    by (simp add: token_valid_def demo_env_def stale_client_def)
  show ?thesis
    using GetToken_refresh [OF nv [of "RequestFailed ''timeout''"]]
      GetToken_refresh [OF nv [of "DecodeFailed ''unexpected EOF'' (GetTokenResult 0 [] [] 0)"]]
      GetToken_refresh [OF nv [of "Decoded (GetTokenResult 40013 ''invalid corpid'' [] 0)"]]
      GetToken_refresh [OF nv [of fresh_reply]]
    by (simp add: demo_env_def fresh_reply_def)
qed

section \<open>Persistence does not reach the caller\<close>

text \<open>Disk operations leave the clock and request counters alone.\<close>

lemma net_state_run_ops: "net_state (run_ops ops w) = net_state w"
proof (induction ops arbitrary: w)
  case Nil
  show ?case by simp
next
  case (Cons x xs)
  have "net_state (apply_fs_op x w) = net_state w"
    by (cases x) (simp_all add: net_state_def split: option.splits)
  with Cons show ?case by simp
qed

lemma net_state_saveTokenCache: "net_state (snd (saveTokenCache e n w)) = net_state w"
proof -
  have "net_state (w\<lparr>saves := Suc (saves w)\<rparr>) = net_state w"
    by (simp add: net_state_def)
  then show ?thesis
    by (simp add: saveTokenCache_def split_beta net_state_run_ops)
qed

lemma saveTokenCache_counters:
  "clock_reads (snd (saveTokenCache e n w)) = clock_reads w"
  "token_requests (snd (saveTokenCache e n w)) = token_requests w"
  "send_requests (snd (saveTokenCache e n w)) = send_requests w"
  using net_state_saveTokenCache [of e n w] by (simp_all add: net_state_def)

lemma refreshToken_persist_independent:
  assumes "net_state w' = net_state w"
  shows "fst (refreshToken (e\<lparr>json_Marshal := m, filepath_Dir := d, save_faults_of := f\<rparr>) n w')
           = fst (refreshToken e n w)
       \<and> fst (snd (refreshToken (e\<lparr>json_Marshal := m, filepath_Dir := d, save_faults_of := f\<rparr>) n w'))
           = fst (snd (refreshToken e n w))
       \<and> net_state (snd (snd (refreshToken (e\<lparr>json_Marshal := m, filepath_Dir := d, save_faults_of := f\<rparr>) n w')))
           = net_state (snd (snd (refreshToken e n w)))"
proof -
  from assms have eq: "clock_reads w' = clock_reads w" "token_requests w' = token_requests w"
    "send_requests w' = send_requests w"
    by (simp_all add: net_state_def)
  show ?thesis
    by (simp add: refreshToken_def Let_def eq store_token_def net_state_def count_token_request_def
        saveTokenCache_counters tick_def split: http_reply.splits)
qed

lemma GetToken_persist_independent:
  assumes "net_state w' = net_state w"
  shows "fst (GetToken (e\<lparr>json_Marshal := m, filepath_Dir := d, save_faults_of := f\<rparr>) n w')
           = fst (GetToken e n w)
       \<and> fst (snd (GetToken (e\<lparr>json_Marshal := m, filepath_Dir := d, save_faults_of := f\<rparr>) n w'))
           = fst (snd (GetToken e n w))
       \<and> net_state (snd (snd (GetToken (e\<lparr>json_Marshal := m, filepath_Dir := d, save_faults_of := f\<rparr>) n w')))
           = net_state (snd (snd (GetToken e n w)))"
proof -
  from assms have eq: "clock_reads w' = clock_reads w" "token_requests w' = token_requests w"
    "send_requests w' = send_requests w"
    by (simp_all add: net_state_def)
  have tv: "token_valid (e\<lparr>json_Marshal := m, filepath_Dir := d, save_faults_of := f\<rparr>) n w'
              = token_valid e n w"
    by (simp add: token_valid_def eq)
  have ag: "net_state (after_guard n w') = net_state (after_guard n w)"
    by (simp add: after_guard_def net_state_def tick_def eq)
  show ?thesis
  proof (cases "token_valid e n w")
    case True
    then show ?thesis
      by (simp add: GetToken_def tv net_state_def tick_def eq)
  next
    case False
    then show ?thesis
      using refreshToken_persist_independent [OF ag, where e = e and m = m and d = d and f = f and n = n]
      by (simp add: GetToken_def tv)
  qed
qed

lemma sendMessage_persist_independent:
  assumes "net_state w' = net_state w"
  shows "fst (sendMessage (e\<lparr>json_Marshal := m, filepath_Dir := d, save_faults_of := f\<rparr>) b n w')
           = fst (sendMessage e b n w)
       \<and> net_state (snd (sendMessage (e\<lparr>json_Marshal := m, filepath_Dir := d, save_faults_of := f\<rparr>) b n w'))
           = net_state (snd (sendMessage e b n w))"
proof -
  from assms have eq: "clock_reads w' = clock_reads w" "token_requests w' = token_requests w"
    "send_requests w' = send_requests w"
    by (simp_all add: net_state_def)
  show ?thesis
    by (simp add: sendMessage_def Let_def eq net_state_def count_send_request_def split: option.splits http_reply.splits)
qed


lemma sendInternal_persist_independent:
  assumes "net_state w' = net_state w"
  shows "fst (sendInternal (e\<lparr>json_Marshal := m, filepath_Dir := d, save_faults_of := f\<rparr>) b n w')
           = fst (sendInternal e b n w)
       \<and> fst (snd (sendInternal (e\<lparr>json_Marshal := m, filepath_Dir := d, save_faults_of := f\<rparr>) b n w'))
           = fst (snd (sendInternal e b n w))"
proof -
  let ?e = "e\<lparr>json_Marshal := m, filepath_Dir := d, save_faults_of := f\<rparr>"
  obtain r1 n1 w1 where g1: "GetToken e n w = (r1, n1, w1)"
    by (cases "GetToken e n w") auto
  obtain r1' n1' w1' where g1': "GetToken ?e n w' = (r1', n1', w1')"
    by (cases "GetToken ?e n w'") auto
  from GetToken_persist_independent [OF assms, where e = e and m = m and d = d and f = f and n = n]
    g1 g1'
  have s1: "r1' = r1" "n1' = n1" "net_state w1' = net_state w1"
    by simp_all
  obtain res err w2 where m1: "sendMessage e b n1 w1 = ((res, err), w2)"
    by (cases "sendMessage e b n1 w1") auto
  obtain res' err' w2' where m1': "sendMessage ?e b n1 w1' = ((res', err'), w2')"
    by (cases "sendMessage ?e b n1 w1'") auto
  from sendMessage_persist_independent [OF s1(3), where e = e and m = m and d = d and f = f
      and b = b and n = n1] m1 m1'
  have s2: "res' = res" "err' = err" "net_state w2' = net_state w2"
    by simp_all
  obtain r2 n2 w3 where g2: "GetToken e n1 w2 = (r2, n2, w3)"
    by (cases "GetToken e n1 w2") auto
  obtain r2' n2' w3' where g2': "GetToken ?e n1 w2' = (r2', n2', w3')"
    by (cases "GetToken ?e n1 w2'") auto
  from GetToken_persist_independent [OF s2(3), where e = e and m = m and d = d and f = f
      and n = n1] g2 g2'
  have s3: "r2' = r2" "n2' = n2" "net_state w3' = net_state w3"
    by simp_all
  obtain res2 err2 w4 where m2: "sendMessage e b n2 w3 = ((res2, err2), w4)"
    by (cases "sendMessage e b n2 w3") auto
  obtain res2' err2' w4' where m2': "sendMessage ?e b n2 w3' = ((res2', err2'), w4')"
    by (cases "sendMessage ?e b n2 w3'") auto
  from sendMessage_persist_independent [OF s3(3), where e = e and m = m and d = d and f = f
      and b = b and n = n2] m2 m2'
  have s4: "res2' = res2" "err2' = err2"
    by simp_all
  show ?thesis
    unfolding sendInternal_def g1 g1' s1
    by (cases r1; cases r2)
       (simp_all add: m1 m1' s2 g2 g2' s3 m2 m2' s4)
qed

text \<open>
  C7. Whatever error the save inside \<open>GetToken\<close> reports, \<open>GetToken\<close> returns the new
  token and expiry and keeps them in the client. More generally, what \<open>GetToken\<close> and
  \<open>Send\<close> return, and the client they leave, do not depend on the faults of the file
  system, on the serializer, on \<open>filepath.Dir\<close> or on the contents of the disk.
\<close>

theorem persistence_failure_never_propagates:
  "(\<not> token_valid e n w
      \<and> http_Get_gettoken e (token_requests w) (corpID n) (appSecret n) = Decoded r
      \<and> tokErrorCode r = 0
      \<and> fst (saveTokenCache e
                (store_token e n (count_token_request (after_guard n w)) r)
                (tick (count_token_request (after_guard n w)))) = Some perr
     \<longrightarrow> fst (GetToken e n w)
           = Inr (tokToken r,
                  TokenExpiresAt (store_token e n (count_token_request (after_guard n w)) r))
         \<and> fst (snd (GetToken e n w))
           = store_token e n (count_token_request (after_guard n w)) r)
   \<and> fst (GetToken (e\<lparr>json_Marshal := m, filepath_Dir := d, save_faults_of := f\<rparr>) n
             (w\<lparr>saves := k, files := fs, dirs := ds\<rparr>))
       = fst (GetToken e n w)
   \<and> fst (snd (GetToken (e\<lparr>json_Marshal := m, filepath_Dir := d, save_faults_of := f\<rparr>) n
                  (w\<lparr>saves := k, files := fs, dirs := ds\<rparr>)))
       = fst (snd (GetToken e n w))
   \<and> fst (Send (e\<lparr>json_Marshal := m, filepath_Dir := d, save_faults_of := f\<rparr>) rc msg opts n
             (w\<lparr>saves := k, files := fs, dirs := ds\<rparr>))
       = fst (Send e rc msg opts n w)
   \<and> fst (snd (Send (e\<lparr>json_Marshal := m, filepath_Dir := d, save_faults_of := f\<rparr>) rc msg opts n
                  (w\<lparr>saves := k, files := fs, dirs := ds\<rparr>)))
       = fst (snd (Send e rc msg opts n w))"
proof -
  have tr: "token_requests (after_guard n w) = token_requests w"
    by (simp add: after_guard_def tick_def)
  have first: "\<not> token_valid e n w
      \<and> http_Get_gettoken e (token_requests w) (corpID n) (appSecret n) = Decoded r
      \<and> tokErrorCode r = 0
     \<longrightarrow> fst (GetToken e n w)
           = Inr (tokToken r,
                  TokenExpiresAt (store_token e n (count_token_request (after_guard n w)) r))
         \<and> fst (snd (GetToken e n w))
           = store_token e n (count_token_request (after_guard n w)) r"
    by (simp add: GetToken_def refreshToken_def Let_def tr)
  have ns: "net_state (w\<lparr>saves := k, files := fs, dirs := ds\<rparr>) = net_state w"
    by (simp add: net_state_def)
  note g = GetToken_persist_independent [OF ns, where e = e and m = m and d = d and f = f
      and n = n]
  note si = sendInternal_persist_independent [OF ns, where e = e and m = m and d = d and f = f
      and n = n]
  have send: "fst (Send (e\<lparr>json_Marshal := m, filepath_Dir := d, save_faults_of := f\<rparr>) rc msg opts n
             (w\<lparr>saves := k, files := fs, dirs := ds\<rparr>))
       = fst (Send e rc msg opts n w)
   \<and> fst (snd (Send (e\<lparr>json_Marshal := m, filepath_Dir := d, save_faults_of := f\<rparr>) rc msg opts n
                  (w\<lparr>saves := k, files := fs, dirs := ds\<rparr>)))
       = fst (snd (Send e rc msg opts n w))"
    using si by (simp add: Send_def split: sum.splits)
  from first g send show ?thesis by blast
qed

theorem persistence_failure_never_propagates_witness:
  "fst (saveTokenCache (demo_env (\<lambda>_. 500) fresh_reply (no_faults\<lparr>create_ok := False\<rparr>))
         (blank_client\<lparr>Token := ''fresh'', TokenExpiresAt := 7700\<rparr>)
         (tick (count_token_request world0)))
     = Some CreateTempFileFailed
   \<and> fst (GetToken (demo_env (\<lambda>_. 500) fresh_reply (no_faults\<lparr>create_ok := False\<rparr>))
            blank_client world0)
     = Inr (''fresh'', 7700)"
proof -
  let ?e = "demo_env (\<lambda>_. 500) fresh_reply (no_faults\<lparr>create_ok := False\<rparr>)"
  have st: "store_token ?e blank_client (count_token_request (after_guard blank_client world0))
              (GetTokenResult 0 ''ok'' ''fresh'' 7200)
            = blank_client\<lparr>Token := ''fresh'', TokenExpiresAt := 7700\<rparr>"
    by (simp add: store_token_def demo_env_def)
  have ag: "after_guard blank_client world0 = world0"
    by (simp add: after_guard_def blank_client_def)
  have sv: "fst (saveTokenCache ?e (blank_client\<lparr>Token := ''fresh'', TokenExpiresAt := 7700\<rparr>)
         (tick (count_token_request world0))) = Some CreateTempFileFailed"
    by (simp add: saveTokenCache_def save_script_def demo_env_def blank_client_def
        demo_client_def demo_Marshal_def demo_Dir_def no_faults_def Let_def)
  have nv: "\<not> token_valid ?e blank_client world0"
    by (simp add: token_valid_def blank_client_def)
  have rp: "http_Get_gettoken ?e (token_requests world0) (corpID blank_client)
              (appSecret blank_client) = Decoded (GetTokenResult 0 ''ok'' ''fresh'' 7200)"
    by (simp add: demo_env_def fresh_reply_def)
  from persistence_failure_never_propagates [where e = ?e and n = blank_client and w = world0
      and r = "GetTokenResult 0 ''ok'' ''fresh'' 7200" and perr = CreateTempFileFailed]
    nv rp sv st ag
  show ?thesis by simp
qed

section \<open>The cache file\<close>

text \<open>A system call that does not touch a path leaves the file there as it is.\<close>

lemma files_apply_untouched: "\<not> touches x p \<Longrightarrow> files (apply_fs_op x w) p = files w p"
  by (cases x) (auto split: option.splits)

lemma files_run_ops_untouched:
  "\<forall>x\<in>set ops. \<not> touches x p \<Longrightarrow> files (run_ops ops w) p = files w p"
proof (induction ops arbitrary: w)
  case Nil
  show ?case by simp
next
  case (Cons x xs)
  then have "files (run_ops xs (apply_fs_op x w)) p = files (apply_fs_op x w) p"
    by simp
  also have "\<dots> = files w p"
    using Cons.prems by (simp add: files_apply_untouched)
  finally show ?case by simp
qed

lemma run_ops_append: "run_ops (xs @ ys) w = run_ops ys (run_ops xs w)"
  by (induction xs arbitrary: w) simp_all

lemma temp_path_differs: "p @ ''.tmp'' \<noteq> p"
  by simp

text \<open>The calls of a successful save before the rename.\<close>

lemma save_script_success:
  assumes "fst (save_script e flt n) = None"
  shows "\<exists>b pre. json_Marshal e n = Some b \<and> TokenPersist n
      \<and> snd (save_script e flt n)
          = pre @ [Rename (CacheFilePath n @ ''.tmp'') (CacheFilePath n)]
      \<and> (\<forall>x\<in>set pre. \<not> touches x (CacheFilePath n))
      \<and> (\<forall>w. files (run_ops pre w) (CacheFilePath n @ ''.tmp'') = Some b)"
proof -
  let ?t = "CacheFilePath n @ ''.tmp''"
  let ?d = "filepath_Dir e (CacheFilePath n)"
  let ?made = "if ?d \<noteq> ''.'' then [MkdirAll ?d] else []"
  from assms obtain b where b: "json_Marshal e n = Some b" and tp: "TokenPersist n"
    and ops: "snd (save_script e flt n)
       = (?made @ [Create ?t, Write ?t b, Sync ?t, Close ?t]) @ [Rename ?t (CacheFilePath n)]"
    by (auto simp: save_script_def Let_def split: if_splits option.splits)
  have un: "\<forall>x\<in>set (?made @ [Create ?t, Write ?t b, Sync ?t, Close ?t]).
              \<not> touches x (CacheFilePath n)"
    by simp
  have tmp: "files (run_ops (?made @ [Create ?t, Write ?t b, Sync ?t, Close ?t]) w) ?t = Some b"
    for w
    by (simp add: run_ops_append)
  from b tp ops un tmp show ?thesis by blast
qed

lemma save_script_failure:
  assumes "fst (save_script e flt n) \<noteq> None"
  shows "\<forall>x\<in>set (snd (save_script e flt n)). \<not> touches x (CacheFilePath n)"
  using assms
  by (auto simp: save_script_def Let_def split: if_splits option.splits)

text \<open>
  C6. Cut a save off after any number \<open>k\<close> of its system calls, under any faults: the
  file at the cache path is then either what it was before or the complete serialized
  client, never anything else. If the save is cut off before its last call, or fails, the
  file is what it was before. A save that is not cut off is the case where \<open>k\<close> is the
  number of its calls.
\<close>

theorem saveTokenCache_atomic:
  "(files (saveTokenCache_interrupted k e n w) (CacheFilePath n) = files w (CacheFilePath n)
     \<or> (\<exists>b. json_Marshal e n = Some b
           \<and> files (saveTokenCache_interrupted k e n w) (CacheFilePath n) = Some b))
   \<and> (k < length (snd (save_script e (save_faults_of e (saves w)) n))
        \<or> fst (saveTokenCache e n w) \<noteq> None
      \<longrightarrow> files (saveTokenCache_interrupted k e n w) (CacheFilePath n)
            = files w (CacheFilePath n))
   \<and> snd (saveTokenCache e n w)
       = saveTokenCache_interrupted (length (snd (save_script e (save_faults_of e (saves w)) n)))
           e n w"
proof -
  let ?flt = "save_faults_of e (saves w)"
  let ?ops = "snd (save_script e ?flt n)"
  let ?w = "w\<lparr>saves := Suc (saves w)\<rparr>"
  let ?p = "CacheFilePath n"
  have err: "fst (saveTokenCache e n w) = fst (save_script e ?flt n)"
    by (simp add: saveTokenCache_def split_beta)
  have whole: "snd (saveTokenCache e n w) = saveTokenCache_interrupted (length ?ops) e n w"
    by (simp add: saveTokenCache_def saveTokenCache_interrupted_def split_beta)
  have cut: "saveTokenCache_interrupted k e n w = run_ops (take k ?ops) ?w"
    by (simp add: saveTokenCache_interrupted_def)
  show ?thesis
  proof (cases "fst (save_script e ?flt n) = None")
    case False
    then have "\<forall>x\<in>set (take k ?ops). \<not> touches x ?p"
      using save_script_failure [of e ?flt n] by (auto dest: in_set_takeD)
    then have "files (run_ops (take k ?ops) ?w) ?p = files w ?p"
      by (simp add: files_run_ops_untouched)
    with whole cut show ?thesis by simp
  next
    case True
    from save_script_success [OF True] obtain b pre where
      b: "json_Marshal e n = Some b"
      and ops: "?ops = pre @ [Rename (?p @ ''.tmp'') ?p]"
      and un: "\<forall>x\<in>set pre. \<not> touches x ?p"
      and tmp: "\<And>w. files (run_ops pre w) (?p @ ''.tmp'') = Some b"
      by blast
    show ?thesis
    proof (cases "k \<le> length pre")
      case le: True
      then have "take k ?ops = take k pre"
        by (simp add: ops)
      moreover have "\<forall>x\<in>set (take k pre). \<not> touches x ?p"
        using un by (auto dest: in_set_takeD)
      ultimately have "files (run_ops (take k ?ops) ?w) ?p = files w ?p"
        by (simp add: files_run_ops_untouched)
      with whole cut show ?thesis by simp
    next
      case gt: False
      then have all: "take k ?ops = pre @ [Rename (?p @ ''.tmp'') ?p]"
        by (simp add: ops)
      have "files (run_ops (take k ?ops) ?w) ?p = Some b"
        by (simp add: all run_ops_append tmp)
      moreover from gt have "\<not> k < length ?ops"
        by (simp add: ops)
      ultimately show ?thesis
        using whole cut b True err by simp
    qed
  qed
qed


theorem saveTokenCache_atomic_witness:
  "3 < length (snd (save_script
          (demo_env (\<lambda>_. 500) fresh_reply (no_faults\<lparr>write_fault := Some 10\<rparr>))
          (save_faults_of (demo_env (\<lambda>_. 500) fresh_reply (no_faults\<lparr>write_fault := Some 10\<rparr>))
             (saves world_cached))
          demo_client))
   \<and> files (saveTokenCache_interrupted 3
              (demo_env (\<lambda>_. 500) fresh_reply (no_faults\<lparr>write_fault := Some 10\<rparr>))
              demo_client world_cached) ''cache/.notify''
     = Some ''old''"
proof -
  let ?e = "demo_env (\<lambda>_. 500) fresh_reply (no_faults\<lparr>write_fault := Some 10\<rparr>)"
  have h: "3 < length (snd (save_script ?e (save_faults_of ?e (saves world_cached)) demo_client))"
    by (simp add: save_script_def demo_env_def demo_client_def demo_Marshal_def demo_Dir_def
        no_faults_def Let_def)
  have p: "CacheFilePath demo_client = ''cache/.notify''"
    by (simp add: demo_client_def)
  have old: "files world_cached ''cache/.notify'' = Some ''old''"
    by (simp add: world_cached_def)
  from saveTokenCache_atomic [of 3 ?e demo_client world_cached] h p old
  show ?thesis by simp
qed

section \<open>Loading the cache\<close>

text \<open>
  \<open>New\<close> calls \<open>loadTokenCache\<close> on a client whose \<open>TokenPersist\<close> is still the zero
  value, and \<open>EnableTokenPersist\<close> can only be called on the client \<open>New\<close> returns. So
  the load in \<open>New\<close> stops at its first check, whatever the disk holds: the client comes
  back without a token and the world is as it was.
\<close>

lemma New_loads_nothing:
  "New e corp agent secret w =
     (\<lparr>corpID = corp, agentID = agent, appSecret = secret, TokenPersist = False,
       Token = [], TokenExpiresAt = 0, CacheFilePath = ''.notify''\<rparr>, w)"
  by (simp add: New_def loadTokenCache_def)

text \<open>
  C2. A client with persistence on, the token \<open>fresh\<close> and the expiry 7700 saves its cache
  at second 500 to the path \<open>New\<close> uses; the save succeeds and the file holds the
  serialized client. A client then made by \<open>New\<close> has no token and the expiry 0, not the
  saved ones; and once persistence is turned on for it, \<open>GetToken\<close> goes to the
  credential endpoint instead of the cache.
\<close>

theorem New_after_save_has_no_token:
  "TokenPersist default_client
   \<and> Token default_client = ''fresh''
   \<and> TokenExpiresAt default_client = 7700
   \<and> time_Now_Unix (demo_env (\<lambda>_. 500) fresh_reply no_faults) 0 <s 7700
   \<and> fst (saveTokenCache (demo_env (\<lambda>_. 500) fresh_reply no_faults) default_client world0)
       = None
   \<and> files (snd (saveTokenCache (demo_env (\<lambda>_. 500) fresh_reply no_faults) default_client
                   world0)) ''.notify''
       = Some default_json
   \<and> Token (fst (New (demo_env (\<lambda>_. 500) fresh_reply no_faults) ''corp'' 1000002 ''secret''
        (snd (saveTokenCache (demo_env (\<lambda>_. 500) fresh_reply no_faults) default_client
                world0)))) = []
   \<and> TokenExpiresAt (fst (New (demo_env (\<lambda>_. 500) fresh_reply no_faults) ''corp'' 1000002
        ''secret''
        (snd (saveTokenCache (demo_env (\<lambda>_. 500) fresh_reply no_faults) default_client
                world0)))) = 0
   \<and> token_requests (snd (snd (GetToken (demo_env (\<lambda>_. 500) fresh_reply no_faults)
        (EnableTokenPersist (fst (New (demo_env (\<lambda>_. 500) fresh_reply no_faults) ''corp''
           1000002 ''secret''
           (snd (saveTokenCache (demo_env (\<lambda>_. 500) fresh_reply no_faults) default_client
                   world0)))))
        (snd (New (demo_env (\<lambda>_. 500) fresh_reply no_faults) ''corp'' 1000002 ''secret''
           (snd (saveTokenCache (demo_env (\<lambda>_. 500) fresh_reply no_faults) default_client
                   world0))))))) = 1"
proof -
  let ?e = "demo_env (\<lambda>_. 500) fresh_reply no_faults"
  let ?t = "''.notify.tmp''"
  have client: "TokenPersist default_client" "Token default_client = ''fresh''"
    "TokenExpiresAt default_client = 7700" "CacheFilePath default_client = ''.notify''"
    by (simp_all add: default_client_def demo_client_def)
  have clock: "time_Now_Unix ?e 0 <s 7700"
    by (simp add: demo_env_def)
  have faults: "save_faults_of ?e k = no_faults" for k
    by (simp add: demo_env_def)
  have script: "save_script ?e no_faults default_client
      = (None, [Create ?t, Write ?t default_json, Sync ?t, Close ?t, Rename ?t ''.notify''])"
    by (simp add: save_script_def demo_env_def demo_Marshal_def demo_Dir_def no_faults_def
        default_client_def demo_client_def Let_def)
  have saved: "fst (saveTokenCache ?e default_client world0) = None"
    by (simp add: saveTokenCache_def faults script)
  have disk: "files (snd (saveTokenCache ?e default_client world0)) ''.notify''
      = Some default_json"
    by (simp add: saveTokenCache_def faults script)
  have requests: "token_requests (snd (saveTokenCache ?e default_client world0)) = 0"
    by (simp add: saveTokenCache_counters world0_def)
  have refresh: "token_requests (snd (snd (GetToken ?e
        (EnableTokenPersist \<lparr>corpID = ''corp'', agentID = 1000002, appSecret = ''secret'',
           TokenPersist = False, Token = [], TokenExpiresAt = 0,
           CacheFilePath = ''.notify''\<rparr>) w))) = Suc (token_requests w)" for w
    by (simp add: GetToken_def refreshToken_def token_valid_def after_guard_def
        EnableTokenPersist_def count_token_request_def saveTokenCache_counters tick_def
        demo_env_def fresh_reply_def Let_def)
  from client clock saved disk requests refresh show ?thesis
    by (simp add: New_loads_nothing)
qed


section \<open>The message dispatcher: properties\<close>

text \<open>No message type has the key \<open>duplicate_check_interval\<close>, and \<open>setOptions\<close> writes
  that key in one place only.\<close>

lemma key_not_interval: "key k \<noteq> ''duplicate_check_interval''"
  by (cases k) simp_all

lemma call_key_not_interval: "call_key message = Some k \<Longrightarrow> k \<noteq> ''duplicate_check_interval''"
  by (cases message) (auto simp: key_not_interval)

lemma setOptions_interval:
  "base ''duplicate_check_interval'' = None \<Longrightarrow>
   setOptions base opts ''duplicate_check_interval''
     = (case opts of
          None \<Rightarrow> None
        | Some v \<Rightarrow>
            if EnableDuplicateCheck v \<and> DuplicateCheckInterval v \<noteq> 0
            then Some (JInt (DuplicateCheckInterval v)) else None)"
  by (simp add: setOptions_def Let_def split: option.splits)

text \<open>
  C9. The envelope that \<open>Send\<close> builds has the field \<open>duplicate_check_interval\<close> exactly
  when options are given, \<open>EnableDuplicateCheck\<close> is true and the interval is not 0, and
  then with the interval as its value; so never when the check is off. The witness is the
  case of the check off and the interval 900.
\<close>

theorem interval_only_with_duplicate_check:
  assumes "buildMsgBody n receiver message options = Inr body"
  shows "body ''duplicate_check_interval''
     = (case options of
          None \<Rightarrow> None
        | Some v \<Rightarrow>
            if EnableDuplicateCheck v \<and> DuplicateCheckInterval v \<noteq> 0
            then Some (JInt (DuplicateCheckInterval v)) else None)"
proof -
  let ?base = "Map.empty(''touser'' \<mapsto> JString (ToUser receiver),
                        ''toparty'' \<mapsto> JString (ToParty receiver),
                        ''totag'' \<mapsto> JString (ToTag receiver),
                        ''agentid'' \<mapsto> JInt (sint (agentID n)))"
  from assms obtain k where k: "call_key message = Some k"
    and body: "body = (setOptions ?base options)(''msgtype'' \<mapsto> JString k, k \<mapsto> JValue message)"
    by (auto simp: buildMsgBody_def Let_def split: if_splits option.splits)
  from call_key_not_interval [OF k] have kn: "k \<noteq> ''duplicate_check_interval''" .
  have "?base ''duplicate_check_interval'' = None"
    by simp
  with setOptions_interval [where base = ?base and opts = options] show ?thesis
    by (simp add: body kn kn [THEN not_sym])
qed

theorem interval_only_with_duplicate_check_witness:
  "buildMsgBody stale_client someone (Msg (Text ''hello'')) (Some quiet_options) = Inr hello_body
   \<and> hello_body ''duplicate_check_interval'' = None"
proof -
  have h: "buildMsgBody stale_client someone (Msg (Text ''hello'')) (Some quiet_options)
             = Inr hello_body"
    by (simp add: buildMsgBody_def setOptions_def quiet_options_def someone_def
        stale_client_def hello_body_def Let_def)
  from interval_only_with_duplicate_check [OF h] h show ?thesis
    by (simp add: quiet_options_def)
qed

text \<open>
  C8, as stated, fails, in two ways. With all three receiver fields empty, a non-nil
  message of a type without \<open>key()\<close> gets the receiver error, since the receiver is
  checked first. And a value of a struct type that is none of the eleven but embeds one
  of them passes the type assertion: \<open>Send\<close> sends it.
\<close>

theorem Send_unrecognized_type_counterexample:
  "snd (fst (Send (demo_env (\<lambda>_. 500) fresh_reply no_faults) nobody (Other ''int'') None
               stale_client world0)) = Some ReceiverNotSet
   \<and> snd (fst (Send (demo_env (\<lambda>_. 500) fresh_reply no_faults) nobody (Other ''int'') None
               stale_client world0)) \<noteq> Some UnrecognizedMessageType
   \<and> fst (Send (demo_env (\<lambda>_. 500) fresh_reply no_faults) someone
             (Embeds ''Alert'' (Text ''hello'')) None demo_client world0) = (result0, None)
   \<and> send_requests (snd (snd (Send (demo_env (\<lambda>_. 500) fresh_reply no_faults) someone
             (Embeds ''Alert'' (Text ''hello'')) None demo_client world0))) = 1"
  by (simp add: Send_def buildMsgBody_def setOptions_def sendInternal_def GetToken_def
      token_valid_def sendMessage_def tick_def count_send_request_def demo_env_def
      demo_send_def result0_def nobody_def someone_def demo_client_def world0_def Let_def)

text \<open>
  C8, amended. For a non-nil message whose type does not implement \<open>MessageKey\<close>: with
  at least one receiver field not empty, \<open>Send\<close> fails with the unrecognized-type error;
  with all three empty, it fails with the receiver error. Either way no envelope is
  built, and the client and the world are unchanged: no token was fetched and no request
  made.
\<close>

theorem Send_unrecognized_type:
  assumes "message \<noteq> NilValue"
    and "\<not> implements_MessageKey message"
  shows "(ToUser receiver \<noteq> [] \<or> ToParty receiver \<noteq> [] \<or> ToTag receiver \<noteq> [] \<longrightarrow>
            buildMsgBody n receiver message options = Inl UnrecognizedMessageType
          \<and> Send e receiver message options n w
              = ((result0, Some UnrecognizedMessageType), n, w))
       \<and> (ToUser receiver = [] \<and> ToParty receiver = [] \<and> ToTag receiver = [] \<longrightarrow>
            buildMsgBody n receiver message options = Inl ReceiverNotSet
          \<and> Send e receiver message options n w = ((result0, Some ReceiverNotSet), n, w))"
  using assms by (auto simp: Send_def buildMsgBody_def Let_def)

theorem Send_unrecognized_type_witness:
  "Send (demo_env (\<lambda>_. 500) fresh_reply no_faults) someone (Other ''int'') None stale_client world0
     = ((result0, Some UnrecognizedMessageType), stale_client, world0)
   \<and> Send (demo_env (\<lambda>_. 500) fresh_reply no_faults) nobody (Other ''int'') None stale_client
       world0
     = ((result0, Some ReceiverNotSet), stale_client, world0)"
proof -
  have h: "Other ''int'' \<noteq> NilValue" "\<not> implements_MessageKey (Other ''int'')"
    by simp_all
  have r: "ToUser someone \<noteq> [] \<or> ToParty someone \<noteq> [] \<or> ToTag someone \<noteq> []"
    "ToUser nobody = [] \<and> ToParty nobody = [] \<and> ToTag nobody = []"
    by (simp_all add: someone_def nobody_def)
  from Send_unrecognized_type [OF h, of someone] Send_unrecognized_type [OF h, of nobody] r
  show ?thesis by blast
qed

text \<open>
  C1. The client's token \<open>stale\<close> is, by its own clock, good until second 1000, and the
  clock reads 500. The first send goes through and the remote answers 42001. The second
  \<open>GetToken\<close> takes the cached path, so no request goes to the credential endpoint and
  the resend carries the token that was just rejected. That resend fails in the
  transport, and \<open>Send\<close> returns the empty result with a nil error: the error of the
  second attempt went to the \<open>err\<close> declared inside the retry branch.
\<close>

theorem Send_retry_resends_rejected_token:
  "sendMessage flaky_env hello_body stale_client (tick world0)
     = ((expired_result, None), count_send_request (tick world0))
   \<and> ErrorCode expired_result = 42001
   \<and> fst (sendMessage flaky_env hello_body stale_client
            (tick (count_send_request (tick world0))))
     = (result0, Some (SendMessageRequestError ''connection reset''))
   \<and> fst (Send flaky_env someone (Msg (Text ''hello'')) None stale_client world0)
     = (result0, None)
   \<and> fst (snd (Send flaky_env someone (Msg (Text ''hello'')) None stale_client world0))
     = stale_client
   \<and> token_requests (snd (snd (Send flaky_env someone (Msg (Text ''hello'')) None
        stale_client world0))) = 0
   \<and> send_requests (snd (snd (Send flaky_env someone (Msg (Text ''hello'')) None
        stale_client world0))) = 2"
  by (simp add: Send_def buildMsgBody_def setOptions_def sendInternal_def GetToken_def
      token_valid_def sendMessage_def tick_def count_send_request_def flaky_env_def
      flaky_send_def demo_env_def expired_result_def result0_def someone_def
      stale_client_def world0_def Let_def)

end
